theory Spec2Isabelle
  imports Main "HOL-Library.Word" "HOL-Library.Sublist"
begin

section \<open>Terminal colour capability detection (package termenv)\<close>

subsection \<open>Colour levels\<close>

text \<open>
  \<^verbatim>\<open>type ColorLevel uint8\<close> with the four constants numbered by \<^verbatim>\<open>iota\<close>.
  Every byte is a value of the type, so the level is an 8-bit word and the comparisons
  of the source are the unsigned comparisons on words.
\<close>

type_synonym ColorLevel = "8 word"

definition TermColorNone :: ColorLevel where
  "TermColorNone = 0"

definition TermColor16 :: ColorLevel where
  "TermColor16 = 1"

definition TermColor256 :: ColorLevel where
  "TermColor256 = 2"

definition TermColorTrue :: ColorLevel where
  "TermColorTrue = 3"

subsection \<open>Process-wide state and the host\<close>

text \<open>
  The errors that reach the last-error slot: the constant of package terminfo used by
  the version check, and whatever closing the probe file reports.
\<close>

datatype error = ErrInvalidTermProgramVersion | CloseError string

text \<open>
  The package-level variables. \<open>backOldVal\<close>, \<open>detectedWSL\<close> and \<open>wslContents\<close> are
  declared in the file at hand; \<open>noColor\<close>, \<open>supportColor\<close>, \<open>colorLevel\<close> and the
  last-error slot are declared elsewhere in the package and only used here.
\<close>

record globals =
  noColor :: bool
  supportColor :: bool
  colorLevel :: ColorLevel
  backOldVal :: bool
  detectedWSL :: bool
  wslContents :: string
  lastErr :: "error option"

text \<open>
  What \<^verbatim>\<open>/proc/version\<close> gives once it is open: the bytes that one \<^verbatim>\<open>Read\<close> delivers and
  the result of \<^verbatim>\<open>Close\<close>.
\<close>

record probe_file =
  read_bytes :: string
  close_err :: "string option"

text \<open>
  The host as the code observes it: the process environment, whether
  \<^verbatim>\<open>runtime.GOOS\<close> is \<^verbatim>\<open>"windows"\<close>, and the probe file (\<open>None\<close> when \<^verbatim>\<open>os.Open\<close> fails).
\<close>

record host =
  environ :: "string \<rightharpoonup> string"
  GOOS_windows :: bool
  proc_version :: "probe_file option"

text \<open>\<^verbatim>\<open>os.Getenv\<close>: the value, or the empty string when the variable is not set.\<close>

definition Getenv :: "host \<Rightarrow> string \<Rightarrow> string" where
  "Getenv h key = (case environ h key of None \<Rightarrow> [] | Some v \<Rightarrow> v)"

subsection \<open>Queries\<close>

definition NoColor :: "globals \<Rightarrow> bool" where
  "NoColor g = noColor g"

definition IsSupportColor :: "globals \<Rightarrow> bool" where
  "IsSupportColor g = (colorLevel g \<noteq> TermColorNone)"

definition IsSupport256Color :: "globals \<Rightarrow> bool" where
  "IsSupport256Color g = (colorLevel g \<ge> TermColor256)"

definition IsSupportTrueColor :: "globals \<Rightarrow> bool" where
  "IsSupportTrueColor g = (colorLevel g = TermColorTrue)"

subsection \<open>Overrides for tests\<close>

definition ForceEnableColor :: "globals \<Rightarrow> globals" where
  "ForceEnableColor g = g\<lparr>noColor := False, backOldVal := supportColor g, supportColor := True\<rparr>"

definition RevertColorSupport :: "host \<Rightarrow> globals \<Rightarrow> globals" where
  "RevertColorSupport h g =
     g\<lparr>supportColor := backOldVal g, noColor := (Getenv h ''NO_COLOR'' = [])\<rparr>"

subsection \<open>String helpers of the standard library\<close>

text \<open>
  \<^verbatim>\<open>strings.Contains(s, substr)\<close>: \<open>substr\<close> occurs in \<open>s\<close> as a contiguous run of bytes.
  The empty string occurs in every string.
\<close>

fun Contains :: "string \<Rightarrow> string \<Rightarrow> bool" where
  "Contains [] sub = (sub = [])"
| "Contains (c # s) sub = (prefix sub (c # s) \<or> Contains s sub)"

text \<open>
  \<^verbatim>\<open>strings.Split(s, ".")[0]\<close>: the separator is not empty, so the result has at least
  one element, and the first one is \<open>s\<close> up to (not including) its first dot, or all of
  \<open>s\<close> when it has none.
\<close>

definition Split_first :: "string \<Rightarrow> string" where
  "Split_first s = takeWhile (\<lambda>c. c \<noteq> CHR ''.'') s"

definition is_digit :: "char \<Rightarrow> bool" where
  "is_digit c = (48 \<le> (of_char c :: nat) \<and> (of_char c :: nat) \<le> 57)"

definition digit_val :: "char \<Rightarrow> nat" where
  "digit_val c = of_char c - 48"

definition digits_val :: "string \<Rightarrow> nat" where
  "digits_val s = foldl (\<lambda>n c. n * 10 + digit_val c) 0 s"

text \<open>
  \<^verbatim>\<open>strconv.Atoi\<close> on a 64-bit \<^verbatim>\<open>int\<close>: one optional sign, then one or more decimal
  digits and nothing else; \<open>None\<close> stands for the error value (a syntax error, or a range
  error when the number does not fit the type).
\<close>

definition Atoi :: "string \<Rightarrow> int option" where
  "Atoi s =
     (let neg = (s \<noteq> [] \<and> hd s = CHR ''-'');
          ds = (if s \<noteq> [] \<and> (hd s = CHR ''-'' \<or> hd s = CHR ''+'') then tl s else s);
          v = (if neg then - int (digits_val ds) else int (digits_val ds))
      in if ds = [] \<or> \<not> list_all is_digit ds then None
         else if v < - 9223372036854775808 \<or> 9223372036854775808 \<le> v then None
         else Some v)"

subsection \<open>Detection\<close>

text \<open>
  Modelled from the spec: \<^verbatim>\<open>setLastErr\<close> is not part of the sources at hand. The spec
  describes a single last-error slot in which a failure is recorded for diagnosis.
\<close>

definition setLastErr :: "error \<Rightarrow> globals \<Rightarrow> globals" where
  "setLastErr e g = g\<lparr>lastErr := Some e\<rparr>"

definition noTrueColorTerm :: string where
  "noTrueColorTerm = ''screen''"

text \<open>
  \<^verbatim>\<open>detectColorLevelFromEnv(termVal, isWin)\<close>. The \<^verbatim>\<open>switch\<close> takes the first case that
  holds. The only effect besides the result is the call of \<^verbatim>\<open>setLastErr\<close>, so the function
  returns the level together with the globals. The calls of \<^verbatim>\<open>debugf\<close> only print a
  diagnostic line and are left out.
\<close>

definition detectColorLevelFromEnv :: "host \<Rightarrow> string \<Rightarrow> bool \<Rightarrow> globals \<Rightarrow> ColorLevel \<times> globals" where
  "detectColorLevelFromEnv h termVal isWin g =
     (if termVal = noTrueColorTerm then (TermColor256, g)
      else
        let colorTerm = Getenv h ''COLORTERM'';
            termProg = Getenv h ''TERM_PROGRAM'';
            forceColor = Getenv h ''FORCE_COLOR''
        in
          if Contains colorTerm ''truecolor'' \<or> Contains colorTerm ''24bit'' then (TermColorTrue, g)
          else if colorTerm \<noteq> [] \<or> forceColor \<noteq> [] then (TermColor16, g)
          else if termProg = ''Apple_Terminal'' then (TermColor256, g)
          else if termProg = ''Terminus'' \<or> termProg = ''Hyper'' then (TermColorTrue, g)
          else if termProg = ''iTerm.app'' then
            (let termVer = Getenv h ''TERM_PROGRAM_VERSION'' in
             if termVer \<noteq> [] then
               (case Atoi (Split_first termVer) of
                  None \<Rightarrow> (TermColor256, setLastErr ErrInvalidTermProgramVersion g)
                | Some i \<Rightarrow> if i = 3 then (TermColorTrue, g) else (TermColor256, g))
             else (TermColor256, g))
          else if \<not> isWin \<and> termVal \<noteq> [] then (TermColor16, g)
          else (TermColorNone, g))"

text \<open>
  \<^verbatim>\<open>detectTermColorLevel()\<close>. The fallback \<^verbatim>\<open>detectSpecialTermColor(termVal)\<close> lives in
  platform files that are not part of the sources at hand, so it is the parameter
  \<open>special\<close>: given the value of TERM and the globals it returns the level, the
  needVTP flag and the globals it leaves. The named result \<^verbatim>\<open>needVTP\<close> keeps its zero
  value \<open>False\<close> on every path that does not reach the fallback.
\<close>

type_synonym special_detector = "string \<Rightarrow> globals \<Rightarrow> (ColorLevel \<times> bool) \<times> globals"

definition detectTermColorLevel :: "special_detector \<Rightarrow> host \<Rightarrow> globals \<Rightarrow> (ColorLevel \<times> bool) \<times> globals" where
  "detectTermColorLevel special h g =
     (let isWin = GOOS_windows h;
          termVal = Getenv h ''TERM''
      in
        if termVal \<noteq> noTrueColorTerm \<and> Getenv h ''TERMINAL_EMULATOR'' = ''JetBrains-JediTerm''
        then ((TermColorTrue, False), g)
        else
          (case detectColorLevelFromEnv h termVal isWin g of
             (level, g') \<Rightarrow>
               if level = TermColorNone then special termVal g'
               else ((level, False), g')))"

definition DetectColorLevel :: "special_detector \<Rightarrow> host \<Rightarrow> globals \<Rightarrow> ColorLevel \<times> globals" where
  "DetectColorLevel special h g =
     (case detectTermColorLevel special h g of ((level, _), g') \<Rightarrow> (level, g'))"

subsection \<open>The WSL probe\<close>

text \<open>
  \<^verbatim>\<open>b := make([]byte, 1024)\<close> is 1024 zero bytes; \<^verbatim>\<open>f.Read(b)\<close> overwrites a prefix of it
  with what the file delivers (its error is ignored), and \<^verbatim>\<open>string(b)\<close> is the whole
  buffer.
\<close>

definition read_buffer :: "probe_file \<Rightarrow> string" where
  "read_buffer f =
     (let got = take 1024 (read_bytes f)
      in got @ replicate (1024 - length got) (CHR 0x00))"

text \<open>
  \<^verbatim>\<open>detectWSL()\<close>: the result and the globals it leaves. The file is opened only inside
  the branch guarded by \<^verbatim>\<open>!detectedWSL\<close>; every path that does not return from inside
  that branch ends in the final \<^verbatim>\<open>return false\<close>.
\<close>

definition detectWSL :: "host \<Rightarrow> globals \<Rightarrow> bool \<times> globals" where
  "detectWSL h g =
     (if \<not> detectedWSL g then
        (let g1 = g\<lparr>detectedWSL := True\<rparr> in
         case proc_version h of
           Some f \<Rightarrow>
             (let g2 = (case close_err f of None \<Rightarrow> g1 | Some e \<Rightarrow> setLastErr (CloseError e) g1);
                  g3 = g2\<lparr>wslContents := read_buffer f\<rparr>
              in (Contains (wslContents g3) ''Microsoft'', g3))
         | None \<Rightarrow> (False, g1))
      else (False, g))"

subsection \<open>Auxiliary notions used in the statements\<close>

text \<open>The guard of the JetBrains short cut in \<^verbatim>\<open>detectTermColorLevel\<close>.\<close>

definition jetbrains_rule :: "host \<Rightarrow> bool" where
  "jetbrains_rule h \<longleftrightarrow>
     Getenv h ''TERM'' \<noteq> noTrueColorTerm \<and> Getenv h ''TERMINAL_EMULATOR'' = ''JetBrains-JediTerm''"

text \<open>Two states agree on the no-color flag, the supports-color flag, its backup and the cached level.\<close>

definition same_flags :: "globals \<Rightarrow> globals \<Rightarrow> bool" where
  "same_flags a b \<longleftrightarrow>
     noColor a = noColor b \<and> supportColor a = supportColor b
     \<and> backOldVal a = backOldVal b \<and> colorLevel a = colorLevel b"

subsection \<open>Concrete inputs\<close>

text \<open>The zero values of the package-level variables, as they are before any code runs.\<close>

definition zero_globals :: globals where
  "zero_globals = \<lparr>noColor = False, supportColor = False, colorLevel = 0, backOldVal = False,
     detectedWSL = False, wslContents = [], lastErr = None\<rparr>"

text \<open>A host that is not Windows and has no probe file, with the given environment.\<close>

definition host_of :: "(string \<rightharpoonup> string) \<Rightarrow> host" where
  "host_of env = \<lparr>environ = env, GOOS_windows = False, proc_version = None\<rparr>"

text \<open>
  One possible fallback, to run the detection on concrete inputs: 256 colours for a TERM
  that mentions xterm, nothing otherwise; it also marks the WSL probe as done.
\<close>

definition example_special :: special_detector where
  "example_special t g =
     ((if Contains t ''xterm'' then TermColor256 else TermColorNone, False), g\<lparr>detectedWSL := True\<rparr>)"

definition jetbrains_host :: host where
  "jetbrains_host = host_of [''TERMINAL_EMULATOR'' \<mapsto> ''JetBrains-JediTerm'', ''NO_COLOR'' \<mapsto> ''1'']"

definition screen_host :: host where
  "screen_host = host_of [''TERM'' \<mapsto> ''screen'', ''COLORTERM'' \<mapsto> ''truecolor'',
     ''TERMINAL_EMULATOR'' \<mapsto> ''JetBrains-JediTerm'']"

definition iterm_host :: "string option \<Rightarrow> host" where
  "iterm_host ver = host_of ([''TERM_PROGRAM'' \<mapsto> ''iTerm.app''](''TERM_PROGRAM_VERSION'' := ver))"

definition truecolor_host :: host where
  "truecolor_host = host_of [''COLORTERM'' \<mapsto> ''truecolor'', ''TERM_PROGRAM'' \<mapsto> ''Apple_Terminal'']"

definition force_color_host :: host where
  "force_color_host = host_of [''FORCE_COLOR'' \<mapsto> ''1'', ''TERM_PROGRAM'' \<mapsto> ''Hyper'']"

definition vt100_host :: host where
  "vt100_host = host_of [''TERM'' \<mapsto> ''vt100'']"

definition wsl_probe :: probe_file where
  "wsl_probe = \<lparr>read_bytes = ''Linux version 4.4.0-19041-Microsoft (Microsoft@Microsoft.com)'',
     close_err = None\<rparr>"

definition wsl_host :: host where
  "wsl_host = \<lparr>environ = Map.empty, GOOS_windows = False, proc_version = Some wsl_probe\<rparr>"

section \<open>Properties\<close>

lemmas level_defs = TermColorNone_def TermColor16_def TermColor256_def TermColorTrue_def

subsection \<open>Order of the levels\<close>

text \<open>
  C9. The boolean queries are monotone in the level: if the cached level of one state is
  numerically below that of another, then 256-colour support in the first gives
  256-colour support in the second, and the same holds for colour support at all; the
  four named levels are strictly increasing in the order None, 16, 256, True.
\<close>

theorem C9_queries_monotone:
  "(colorLevel g1 < colorLevel g2 \<longrightarrow> IsSupport256Color g1 \<longrightarrow> IsSupport256Color g2)
   \<and> (colorLevel g1 < colorLevel g2 \<longrightarrow> IsSupportColor g1 \<longrightarrow> IsSupportColor g2)
   \<and> TermColorNone < TermColor16 \<and> TermColor16 < TermColor256 \<and> TermColor256 < TermColorTrue"
proof (intro conjI impI)
  assume "colorLevel g1 < colorLevel g2" and "IsSupport256Color g1"
  then have "TermColor256 \<le> colorLevel g2"
    unfolding IsSupport256Color_def by simp
  then show "IsSupport256Color g2"
    by (simp add: IsSupport256Color_def)
next
  assume lt: "colorLevel g1 < colorLevel g2"
  have "0 \<le> colorLevel g1" by simp
  with lt have "colorLevel g2 \<noteq> 0" by auto
  then show "IsSupportColor g2"
    by (simp add: IsSupportColor_def TermColorNone_def)
qed (simp_all add: level_defs)

theorem C9_queries_monotone_witness:
  "colorLevel (zero_globals\<lparr>colorLevel := TermColor256\<rparr>) < colorLevel (zero_globals\<lparr>colorLevel := TermColorTrue\<rparr>)
   \<and> IsSupport256Color (zero_globals\<lparr>colorLevel := TermColor256\<rparr>)
   \<and> IsSupport256Color (zero_globals\<lparr>colorLevel := TermColorTrue\<rparr>)
   \<and> IsSupportColor (zero_globals\<lparr>colorLevel := TermColor256\<rparr>)
   \<and> IsSupportColor (zero_globals\<lparr>colorLevel := TermColorTrue\<rparr>)"
  using C9_queries_monotone [of "zero_globals\<lparr>colorLevel := TermColor256\<rparr>"
      "zero_globals\<lparr>colorLevel := TermColorTrue\<rparr>"]
  by (simp add: IsSupport256Color_def IsSupportColor_def level_defs)

subsection \<open>The overrides\<close>

lemma IsSupportColor_ForceEnableColor:
  "IsSupportColor (ForceEnableColor g) = IsSupportColor g"
  by (simp add: IsSupportColor_def ForceEnableColor_def)

lemma supportColor_ForceEnableColor:
  "supportColor (ForceEnableColor g) \<and> \<not> noColor (ForceEnableColor g)"
  by (simp add: ForceEnableColor_def)

lemma supportColor_Revert_Force:
  "supportColor (RevertColorSupport h (ForceEnableColor g)) = supportColor g"
  by (simp add: RevertColorSupport_def ForceEnableColor_def)

text \<open>
  C1. Starting from the zero state, whose cached level is None: \<^verbatim>\<open>ForceEnableColor\<close> sets
  the supports-color flag, yet \<^verbatim>\<open>IsSupportColor\<close> still answers false, because it reads
  the cached level, which the force does not touch. \<^verbatim>\<open>RevertColorSupport\<close> then gives
  the supports-color flag the value it had before the force.
\<close>

theorem C1_force_enable_not_seen_by_query:
  "\<not> IsSupportColor (ForceEnableColor zero_globals)
   \<and> supportColor (ForceEnableColor zero_globals)
   \<and> supportColor (RevertColorSupport (host_of Map.empty) (ForceEnableColor zero_globals))
       = supportColor zero_globals"
  by (simp add: IsSupportColor_def ForceEnableColor_def RevertColorSupport_def zero_globals_def
      TermColorNone_def)

lemma NoColor_RevertColorSupport:
  "NoColor (RevertColorSupport h g) \<longleftrightarrow> Getenv h ''NO_COLOR'' = []"
  by (simp add: NoColor_def RevertColorSupport_def)

text \<open>
  C2. After \<^verbatim>\<open>RevertColorSupport\<close> the answer of \<^verbatim>\<open>NoColor\<close> is the opposite of what the
  environment says: with \<^verbatim>\<open>NO_COLOR=1\<close> it is false, and with NO_COLOR not set it is true.
\<close>

theorem C2_revert_inverts_no_color:
  "environ (host_of [''NO_COLOR'' \<mapsto> ''1'']) ''NO_COLOR'' = Some ''1''
   \<and> \<not> NoColor (RevertColorSupport (host_of [''NO_COLOR'' \<mapsto> ''1'']) zero_globals)
   \<and> environ (host_of Map.empty) ''NO_COLOR'' = None
   \<and> NoColor (RevertColorSupport (host_of Map.empty) zero_globals)"
  by (simp add: NoColor_def RevertColorSupport_def Getenv_def host_of_def)

subsection \<open>The WSL probe\<close>

lemma Contains_sublist: "Contains s sub \<longleftrightarrow> sublist sub s"
  by (induction s) (simp_all add: sublist_Cons_right)

lemma Contains_append: "Contains s sub \<Longrightarrow> Contains (s @ r) sub"
  unfolding Contains_sublist sublist_def by (metis append.assoc)

lemma Contains_read_buffer:
  "Contains (take 1024 (read_bytes f)) sub \<Longrightarrow> Contains (read_buffer f) sub"
  by (simp add: read_buffer_def Let_def Contains_append)

lemma length_read_buffer: "length (read_buffer f) = 1024"
  by (simp add: read_buffer_def Let_def)

lemma detectWSL_first:
  "\<not> detectedWSL g \<Longrightarrow> proc_version h = Some f \<Longrightarrow>
   fst (detectWSL h g) = Contains (read_buffer f) ''Microsoft''
   \<and> wslContents (snd (detectWSL h g)) = read_buffer f"
  by (simp add: detectWSL_def Let_def setLastErr_def split: option.split)

text \<open>A failing \<^verbatim>\<open>os.Open\<close> gives the answer false and records no error.\<close>

lemma detectWSL_open_fails:
  "proc_version h = None \<Longrightarrow>
   fst (detectWSL h g) = False \<and> lastErr (snd (detectWSL h g)) = lastErr g"
  by (simp add: detectWSL_def)

lemma detectWSL_detected:
  "detectedWSL (snd (detectWSL h g))"
  by (simp add: detectWSL_def Let_def setLastErr_def split: option.split)

text \<open>
  Once the flag is set, a call does not look at the host at all and changes nothing: the
  file is not opened again and the stored contents stay as they are.
\<close>

lemma detectWSL_again:
  "detectedWSL g \<Longrightarrow> detectWSL h g = (False, g)"
  by (simp add: detectWSL_def)

text \<open>
  C3. On a host whose \<^verbatim>\<open>/proc/version\<close> carries the Microsoft marker, the first call of
  \<^verbatim>\<open>detectWSL\<close> answers true and the second call answers false, although the contents
  stored by the first call still hold the marker.
\<close>

theorem C3_second_call_forgets_result:
  "fst (detectWSL wsl_host zero_globals) = True
   \<and> fst (detectWSL wsl_host (snd (detectWSL wsl_host zero_globals))) = False
   \<and> Contains (wslContents (snd (detectWSL wsl_host (snd (detectWSL wsl_host zero_globals))))) ''Microsoft''"
proof -
  have pv: "proc_version wsl_host = Some wsl_probe" by (simp add: wsl_host_def)
  have nd: "\<not> detectedWSL zero_globals" by (simp add: zero_globals_def)
  have "Contains (take 1024 (read_bytes wsl_probe)) ''Microsoft''"
    by (simp add: wsl_probe_def)
  then have c: "Contains (read_buffer wsl_probe) ''Microsoft''" by (rule Contains_read_buffer)
  note first = detectWSL_first [OF nd pv]
  have again: "detectWSL wsl_host (snd (detectWSL wsl_host zero_globals))
      = (False, snd (detectWSL wsl_host zero_globals))"
    by (rule detectWSL_again) (rule detectWSL_detected)
  from first c again show ?thesis by simp
qed

subsection \<open>Detection: the rules in their order\<close>

text \<open>
  C4. If TERM is not \<^verbatim>\<open>screen\<close> and TERMINAL_EMULATOR is \<^verbatim>\<open>JetBrains-JediTerm\<close>, then
  \<^verbatim>\<open>detectTermColorLevel\<close> returns true colour with needVTP false, whatever the other
  variables (NO_COLOR among them), the globals and the fallback are; no state changes and
  \<^verbatim>\<open>DetectColorLevel\<close> reports the same level.
\<close>

theorem C4_jetbrains_short_circuit:
  assumes "Getenv h ''TERM'' \<noteq> ''screen''"
    and "Getenv h ''TERMINAL_EMULATOR'' = ''JetBrains-JediTerm''"
  shows "detectTermColorLevel special h g = ((TermColorTrue, False), g)
         \<and> DetectColorLevel special h g = (TermColorTrue, g)"
  using assms by (simp add: DetectColorLevel_def detectTermColorLevel_def noTrueColorTerm_def)

theorem C4_jetbrains_short_circuit_witness:
  "Getenv jetbrains_host ''TERM'' \<noteq> ''screen''
   \<and> Getenv jetbrains_host ''TERMINAL_EMULATOR'' = ''JetBrains-JediTerm''
   \<and> Getenv jetbrains_host ''NO_COLOR'' = ''1''
   \<and> detectTermColorLevel example_special jetbrains_host (zero_globals\<lparr>noColor := True\<rparr>)
       = ((TermColorTrue, False), zero_globals\<lparr>noColor := True\<rparr>)
   \<and> DetectColorLevel example_special jetbrains_host (zero_globals\<lparr>noColor := True\<rparr>)
       = (TermColorTrue, zero_globals\<lparr>noColor := True\<rparr>)"
  using C4_jetbrains_short_circuit [of jetbrains_host example_special "zero_globals\<lparr>noColor := True\<rparr>"]
  by (simp add: jetbrains_host_def Getenv_def host_of_def)

text \<open>
  C5. If TERM is \<^verbatim>\<open>screen\<close>, the detection returns the 256-colour level, never true
  colour, whatever TERMINAL_EMULATOR, COLORTERM and the other variables are; needVTP is
  false and no state changes.
\<close>

theorem C5_screen_is_256:
  assumes "Getenv h ''TERM'' = ''screen''"
  shows "detectTermColorLevel special h g = ((TermColor256, False), g)
         \<and> DetectColorLevel special h g = (TermColor256, g)
         \<and> fst (DetectColorLevel special h g) \<noteq> TermColorTrue"
  using assms
  by (simp add: DetectColorLevel_def detectTermColorLevel_def detectColorLevelFromEnv_def
      noTrueColorTerm_def level_defs)

theorem C5_screen_is_256_witness:
  "Getenv screen_host ''TERM'' = ''screen''
   \<and> Getenv screen_host ''COLORTERM'' = ''truecolor''
   \<and> DetectColorLevel example_special screen_host zero_globals = (TermColor256, zero_globals)"
  using C5_screen_is_256 [of screen_host example_special zero_globals]
  by (simp add: screen_host_def Getenv_def host_of_def)

text \<open>
  C7. With TERM not \<^verbatim>\<open>screen\<close> and no JetBrains short cut: a COLORTERM that contains
  \<^verbatim>\<open>truecolor\<close> or \<^verbatim>\<open>24bit\<close> gives true colour, whatever TERM_PROGRAM is; otherwise a
  non-empty COLORTERM or a non-empty FORCE_COLOR gives the 16-colour level.
\<close>

theorem C7_colorterm_rules:
  assumes "Getenv h ''TERM'' \<noteq> ''screen''"
    and "Getenv h ''TERMINAL_EMULATOR'' \<noteq> ''JetBrains-JediTerm''"
  shows "(Contains (Getenv h ''COLORTERM'') ''truecolor'' \<or> Contains (Getenv h ''COLORTERM'') ''24bit''
            \<longrightarrow> DetectColorLevel special h g = (TermColorTrue, g))
         \<and> (\<not> Contains (Getenv h ''COLORTERM'') ''truecolor'' \<and> \<not> Contains (Getenv h ''COLORTERM'') ''24bit''
              \<and> (Getenv h ''COLORTERM'' \<noteq> [] \<or> Getenv h ''FORCE_COLOR'' \<noteq> [])
            \<longrightarrow> DetectColorLevel special h g = (TermColor16, g))"
  using assms
  by (simp add: DetectColorLevel_def detectTermColorLevel_def detectColorLevelFromEnv_def
      noTrueColorTerm_def level_defs)

theorem C7_colorterm_rules_witness:
  "Getenv truecolor_host ''TERM_PROGRAM'' = ''Apple_Terminal''
   \<and> Contains (Getenv truecolor_host ''COLORTERM'') ''truecolor''
   \<and> DetectColorLevel example_special truecolor_host zero_globals = (TermColorTrue, zero_globals)
   \<and> Getenv force_color_host ''COLORTERM'' = []
   \<and> Getenv force_color_host ''FORCE_COLOR'' \<noteq> []
   \<and> DetectColorLevel example_special force_color_host zero_globals = (TermColor16, zero_globals)"
  using C7_colorterm_rules [of truecolor_host example_special zero_globals]
    C7_colorterm_rules [of force_color_host example_special zero_globals]
  by (simp add: truecolor_host_def force_color_host_def Getenv_def host_of_def)

text \<open>
  C8. Suppose no earlier rule applies (TERM is not \<^verbatim>\<open>screen\<close>, no JetBrains short cut,
  COLORTERM and FORCE_COLOR are empty, TERM_PROGRAM is none of the four known programs) and
  the host is not Windows. If TERM is not empty, the level is the 16-colour one: the value
  of TERM is not looked at any further. If TERM is empty, the rules give None and the
  detection returns what the fallback returns for the empty TERM; so the level is None
  when the fallback has nothing for the empty TERM.
\<close>

theorem C8_term_fallthrough:
  assumes "Getenv h ''TERM'' \<noteq> ''screen''"
    and "Getenv h ''TERMINAL_EMULATOR'' \<noteq> ''JetBrains-JediTerm''"
    and "Getenv h ''COLORTERM'' = []" and "Getenv h ''FORCE_COLOR'' = []"
    and "Getenv h ''TERM_PROGRAM'' \<notin> {''Apple_Terminal'', ''Terminus'', ''Hyper'', ''iTerm.app''}"
    and "\<not> GOOS_windows h"
  shows "(Getenv h ''TERM'' \<noteq> [] \<longrightarrow> DetectColorLevel special h g = (TermColor16, g))
         \<and> (Getenv h ''TERM'' = [] \<longrightarrow>
              detectColorLevelFromEnv h [] False g = (TermColorNone, g)
              \<and> detectTermColorLevel special h g = special [] g)
         \<and> (Getenv h ''TERM'' = [] \<and> fst (fst (special [] g)) = TermColorNone \<longrightarrow>
              fst (DetectColorLevel special h g) = TermColorNone)"
  using assms
  by (simp add: DetectColorLevel_def detectTermColorLevel_def detectColorLevelFromEnv_def
      noTrueColorTerm_def level_defs split: prod.splits)

theorem C8_term_fallthrough_witness:
  "Getenv vt100_host ''TERM'' = ''vt100''
   \<and> DetectColorLevel example_special vt100_host zero_globals = (TermColor16, zero_globals)
   \<and> Getenv (host_of Map.empty) ''TERM'' = []
   \<and> fst (fst (example_special [] zero_globals)) = TermColorNone
   \<and> fst (DetectColorLevel example_special (host_of Map.empty) zero_globals) = TermColorNone"
  using C8_term_fallthrough [of vt100_host example_special zero_globals]
    C8_term_fallthrough [of "host_of Map.empty" example_special zero_globals]
  by (simp add: vt100_host_def Getenv_def host_of_def example_special_def)

subsection \<open>Detection: the version of iTerm\<close>

lemma Atoi_examples:
  "Atoi (Split_first ''3.4.1'') = Some 3"
  "Atoi (Split_first ''2.9'') = Some 2"
  "Atoi (Split_first ''abc'') = None"
  "Atoi (Split_first []) = None"
  by (simp_all add: Split_first_def Atoi_def is_digit_def digits_val_def digit_val_def)

lemma iterm_host_env:
  "Getenv (iterm_host v) ''TERM'' = []"
  "Getenv (iterm_host v) ''TERMINAL_EMULATOR'' = []"
  "Getenv (iterm_host v) ''COLORTERM'' = []"
  "Getenv (iterm_host v) ''FORCE_COLOR'' = []"
  "Getenv (iterm_host v) ''TERM_PROGRAM'' = ''iTerm.app''"
  "Getenv (iterm_host (Some s)) ''TERM_PROGRAM_VERSION'' = s"
  "Getenv (iterm_host None) ''TERM_PROGRAM_VERSION'' = []"
  by (simp_all add: iterm_host_def host_of_def Getenv_def)

text \<open>
  C6, as stated, fails when TERM_PROGRAM_VERSION is empty or not set: the part before the
  first dot is the empty string, which does not parse, yet no error is recorded.
\<close>

theorem C6_empty_version_counterexample:
  "\<not> (Atoi (Split_first (Getenv (iterm_host None) ''TERM_PROGRAM_VERSION'')) = None \<longrightarrow>
        lastErr (snd (DetectColorLevel example_special (iterm_host None) zero_globals))
          = Some ErrInvalidTermProgramVersion)"
  by (simp add: iterm_host_def host_of_def Getenv_def DetectColorLevel_def detectTermColorLevel_def
      detectColorLevelFromEnv_def noTrueColorTerm_def level_defs Split_first_def Atoi_def
      zero_globals_def)

text \<open>
  C6, amended. When TERM_PROGRAM is \<^verbatim>\<open>iTerm.app\<close> and no earlier rule applies: for a
  non-empty TERM_PROGRAM_VERSION whose part before the first dot parses as 3 the level is
  true colour; if it parses as another integer the level is the 256-colour one; if it does
  not parse, the level is the 256-colour one and the only change of state is that the
  error is put in the last-error slot. For an empty TERM_PROGRAM_VERSION nothing is parsed,
  the level is the 256-colour one and no error is recorded.
\<close>

theorem C6_iterm_version:
  assumes "Getenv h ''TERM'' \<noteq> ''screen''"
    and "Getenv h ''TERMINAL_EMULATOR'' \<noteq> ''JetBrains-JediTerm''"
    and "Getenv h ''COLORTERM'' = []" and "Getenv h ''FORCE_COLOR'' = []"
    and "Getenv h ''TERM_PROGRAM'' = ''iTerm.app''"
  shows "(Getenv h ''TERM_PROGRAM_VERSION'' \<noteq> []
            \<and> Atoi (Split_first (Getenv h ''TERM_PROGRAM_VERSION'')) = Some 3
          \<longrightarrow> DetectColorLevel special h g = (TermColorTrue, g))
       \<and> (\<forall>i. Getenv h ''TERM_PROGRAM_VERSION'' \<noteq> []
            \<and> Atoi (Split_first (Getenv h ''TERM_PROGRAM_VERSION'')) = Some i \<and> i \<noteq> 3
          \<longrightarrow> DetectColorLevel special h g = (TermColor256, g))
       \<and> (Getenv h ''TERM_PROGRAM_VERSION'' \<noteq> []
            \<and> Atoi (Split_first (Getenv h ''TERM_PROGRAM_VERSION'')) = None
          \<longrightarrow> DetectColorLevel special h g
                = (TermColor256, g\<lparr>lastErr := Some ErrInvalidTermProgramVersion\<rparr>))
       \<and> (Getenv h ''TERM_PROGRAM_VERSION'' = []
          \<longrightarrow> DetectColorLevel special h g = (TermColor256, g))"
  using assms
  by (simp add: DetectColorLevel_def detectTermColorLevel_def detectColorLevelFromEnv_def
      noTrueColorTerm_def level_defs setLastErr_def)

theorem C6_iterm_version_witness:
  "DetectColorLevel example_special (iterm_host (Some ''3.4.1'')) zero_globals = (TermColorTrue, zero_globals)
   \<and> DetectColorLevel example_special (iterm_host (Some ''2.9'')) zero_globals = (TermColor256, zero_globals)
   \<and> DetectColorLevel example_special (iterm_host (Some ''abc'')) zero_globals
       = (TermColor256, zero_globals\<lparr>lastErr := Some ErrInvalidTermProgramVersion\<rparr>)
   \<and> DetectColorLevel example_special (iterm_host None) zero_globals = (TermColor256, zero_globals)"
  using C6_iterm_version [of "iterm_host (Some ''3.4.1'')" example_special zero_globals]
    C6_iterm_version [of "iterm_host (Some ''2.9'')" example_special zero_globals]
    C6_iterm_version [of "iterm_host (Some ''abc'')" example_special zero_globals]
    C6_iterm_version [of "iterm_host None" example_special zero_globals]
  by (simp add: iterm_host_env Atoi_examples)

subsection \<open>Detection: what it changes\<close>

text \<open>
  The rules either leave the globals as they are, or return the 256-colour level with the
  error recorded; this is the rule used to reason about every result of the function.
\<close>

lemma detectColorLevelFromEnv_cases:
  assumes "\<And>l. Q (l, g)"
    and "Q (TermColor256, setLastErr ErrInvalidTermProgramVersion g)"
  shows "Q (detectColorLevelFromEnv h t w g)"
  using assms by (simp add: detectColorLevelFromEnv_def Let_def split: option.split)

lemma detectColorLevelFromEnv_state:
  "snd (detectColorLevelFromEnv h t w g) = g
   \<or> (fst (detectColorLevelFromEnv h t w g) = TermColor256
      \<and> snd (detectColorLevelFromEnv h t w g) = setLastErr ErrInvalidTermProgramVersion g)"
  by (rule detectColorLevelFromEnv_cases) simp_all

lemma detectColorLevelFromEnv_None:
  assumes "fst (detectColorLevelFromEnv h t w g) = TermColorNone"
  shows "snd (detectColorLevelFromEnv h t w g) = g"
  using detectColorLevelFromEnv_state [of h t w g] assms by (auto simp: level_defs)

lemma detectColorLevelFromEnv_blind:
  "fst (detectColorLevelFromEnv h t w (g\<lparr>lastErr := e\<rparr>)) = fst (detectColorLevelFromEnv h t w g)"
  by (simp add: detectColorLevelFromEnv_def Let_def split: option.split)

lemma detectTermColorLevel_jetbrains:
  "jetbrains_rule h \<Longrightarrow> detectTermColorLevel special h g = ((TermColorTrue, False), g)"
  by (simp add: detectTermColorLevel_def jetbrains_rule_def)

lemma detectTermColorLevel_rules:
  "\<not> jetbrains_rule h \<Longrightarrow>
   detectTermColorLevel special h g =
     (if fst (detectColorLevelFromEnv h (Getenv h ''TERM'') (GOOS_windows h) g) = TermColorNone
      then special (Getenv h ''TERM'') (snd (detectColorLevelFromEnv h (Getenv h ''TERM'') (GOOS_windows h) g))
      else ((fst (detectColorLevelFromEnv h (Getenv h ''TERM'') (GOOS_windows h) g), False),
            snd (detectColorLevelFromEnv h (Getenv h ''TERM'') (GOOS_windows h) g)))"
  by (auto simp add: detectTermColorLevel_def jetbrains_rule_def Let_def case_prod_beta)

lemma DetectColorLevel_unfold:
  "DetectColorLevel special h g =
     (fst (fst (detectTermColorLevel special h g)), snd (detectTermColorLevel special h g))"
  by (simp add: DetectColorLevel_def case_prod_beta)

lemma detectTermColorLevel_state:
  "snd (detectTermColorLevel special h g) = g
   \<or> snd (detectTermColorLevel special h g) = setLastErr ErrInvalidTermProgramVersion g
   \<or> snd (detectTermColorLevel special h g) = snd (special (Getenv h ''TERM'') g)"
proof (cases "jetbrains_rule h")
  case True
  then show ?thesis by (simp add: detectTermColorLevel_jetbrains)
next
  case False
  let ?r = "detectColorLevelFromEnv h (Getenv h ''TERM'') (GOOS_windows h) g"
  note eq = detectTermColorLevel_rules [OF False, of special g]
  show ?thesis
  proof (cases "fst ?r = TermColorNone")
    case True
    then have "snd ?r = g" by (rule detectColorLevelFromEnv_None)
    with True show ?thesis unfolding eq by simp
  next
    case nz: False
    have "snd ?r = g \<or> snd ?r = setLastErr ErrInvalidTermProgramVersion g"
      using detectColorLevelFromEnv_state [of h "Getenv h ''TERM''" "GOOS_windows h" g] by blast
    with nz show ?thesis unfolding eq by auto
  qed
qed

lemma detectTermColorLevel_blind:
  assumes "\<And>t s e. fst (special t (s\<lparr>lastErr := e\<rparr>)) = fst (special t s)"
  shows "fst (detectTermColorLevel special h (g\<lparr>lastErr := e\<rparr>)) = fst (detectTermColorLevel special h g)"
proof (cases "jetbrains_rule h")
  case True
  then show ?thesis by (simp add: detectTermColorLevel_jetbrains)
next
  case False
  let ?t = "Getenv h ''TERM''" and ?w = "GOOS_windows h"
  let ?r = "detectColorLevelFromEnv h ?t ?w g"
  let ?r' = "detectColorLevelFromEnv h ?t ?w (g\<lparr>lastErr := e\<rparr>)"
  note eq = detectTermColorLevel_rules [OF False, of special g]
  note eq' = detectTermColorLevel_rules [OF False, of special "g\<lparr>lastErr := e\<rparr>"]
  have lv: "fst ?r' = fst ?r" by (rule detectColorLevelFromEnv_blind)
  show ?thesis
  proof (cases "fst ?r = TermColorNone")
    case True
    then have "snd ?r = g" by (rule detectColorLevelFromEnv_None)
    moreover from True lv have "snd ?r' = g\<lparr>lastErr := e\<rparr>"
      by (simp add: detectColorLevelFromEnv_None)
    ultimately show ?thesis unfolding eq eq' using True lv assms by simp
  next
    case nz: False
    with lv show ?thesis unfolding eq eq' by simp
  qed
qed

text \<open>
  C10. Let the fallback leave the no-color flag, the supports-color flag, its backup and
  the cached level as they are, and let its result not depend on the last-error slot. Then
  \<^verbatim>\<open>DetectColorLevel\<close> leaves these four values unchanged in every environment. The
  globals it leaves are the ones it started with, or these with the version error in the
  last-error slot, or what the fallback leaves when run on the unchanged globals. The
  level it returns does not depend on what the last-error slot held before.
\<close>

theorem C10_detect_frame:
  assumes frame: "\<forall>t s. same_flags (snd (special t s)) s"
    and blind: "\<forall>t s e. fst (special t (s\<lparr>lastErr := e\<rparr>)) = fst (special t s)"
  shows "same_flags (snd (DetectColorLevel special h g)) g
         \<and> (snd (DetectColorLevel special h g) = g
            \<or> snd (DetectColorLevel special h g) = g\<lparr>lastErr := Some ErrInvalidTermProgramVersion\<rparr>
            \<or> snd (DetectColorLevel special h g) = snd (special (Getenv h ''TERM'') g))
         \<and> (\<forall>e. fst (DetectColorLevel special h (g\<lparr>lastErr := e\<rparr>)) = fst (DetectColorLevel special h g))"
proof (intro conjI allI)
  show st: "snd (DetectColorLevel special h g) = g
            \<or> snd (DetectColorLevel special h g) = g\<lparr>lastErr := Some ErrInvalidTermProgramVersion\<rparr>
            \<or> snd (DetectColorLevel special h g) = snd (special (Getenv h ''TERM'') g)"
    using detectTermColorLevel_state [of special h g]
    by (simp add: DetectColorLevel_unfold setLastErr_def)
  from st frame show "same_flags (snd (DetectColorLevel special h g)) g"
    by (auto simp: same_flags_def)
next
  fix e
  from blind have "fst (detectTermColorLevel special h (g\<lparr>lastErr := e\<rparr>))
      = fst (detectTermColorLevel special h g)"
    by (intro detectTermColorLevel_blind) simp
  then show "fst (DetectColorLevel special h (g\<lparr>lastErr := e\<rparr>)) = fst (DetectColorLevel special h g)"
    by (simp add: DetectColorLevel_unfold)
qed

theorem C10_detect_frame_witness:
  "(\<forall>t s. same_flags (snd (example_special t s)) s)
   \<and> (\<forall>t s e. fst (example_special t (s\<lparr>lastErr := e\<rparr>)) = fst (example_special t s))
   \<and> same_flags (snd (DetectColorLevel example_special (iterm_host (Some ''abc'')) zero_globals)) zero_globals
   \<and> fst (DetectColorLevel example_special (iterm_host (Some ''abc''))
            (zero_globals\<lparr>lastErr := Some (CloseError ''EIO'')\<rparr>))
       = fst (DetectColorLevel example_special (iterm_host (Some ''abc'')) zero_globals)"
proof -
  have f: "\<forall>t s. same_flags (snd (example_special t s)) s"
    by (simp add: example_special_def same_flags_def)
  have b: "\<forall>t s e. fst (example_special t (s\<lparr>lastErr := e\<rparr>)) = fst (example_special t s)"
    by (simp add: example_special_def)
  from C10_detect_frame [OF f b, of "iterm_host (Some ''abc'')" zero_globals] f b
  show ?thesis by blast
qed

end
